theory Spec2Isabelle
  imports Complex_Main "HOL-Library.Log_Nat"
begin

section \<open>Python values used by the notebook\<close>

text \<open>
  The notebook \<^verbatim>\<open>notebook-solution.ipynb\<close> is a sequence of code cells. Its only
  arithmetic is in the Task 3 cell:
  \<^verbatim>\<open>
  doc_tokens = [len(encoder.encode(d.page_content)) for d in documents]
  total_tokens = sum(doc_tokens)
  cost_estimate = (sum(doc_tokens)/1000) * 0.0004
  print(f"{total_tokens} tokens, cost estimate: ${cost_estimate:.2f}")
  \<close>
  \<open>sum(doc_tokens)\<close> is an unbounded Python int; \<open>/\<close> on two ints is true division, which
  returns the binary64 float nearest to the exact quotient; \<open>0.0004\<close> is the binary64 float
  nearest to 4/10000; \<open>*\<close> on two floats is the IEEE 754 product, rounded to nearest, ties to
  even. A finite float is modelled by the rational number it denotes (the sign of zero is not
  kept), so that the rounding is written out and can be evaluated.
\<close>

datatype py_error =
    OverflowError
  | ZeroDivisionError
  | ValueError
  | KeyError string
  | ConfigurationError

datatype pyfloat = Finite rat | PosInf | NegInf

text \<open>Rounding a rational to the nearest integer, ties to the even one.\<close>

definition round_half_even :: "rat \<Rightarrow> int" where
  "round_half_even x =
     (let f = \<lfloor>x\<rfloor>; d = x - of_int f
      in if d < 1/2 then f else if 1/2 < d then f + 1 else if even f then f else f + 1)"

text \<open>The binary exponent of a positive rational \<open>x\<close>: the \<open>e\<close> with \<open>2^e \<le> x < 2^(e+1)\<close>.\<close>

definition ilog2 :: "rat \<Rightarrow> int" where
  "ilog2 x = (case quotient_of x of (p, q) \<Rightarrow>
     let d = bitlen p - bitlen q in if 2 powi d \<le> x then d else d - 1)"

text \<open>
  binary64 has 53 significant bits and a least normal exponent of \<open>-1022\<close>: the spacing of
  the floats around \<open>x\<close> is \<open>2^(e - 52)\<close>, where \<open>e\<close> is the exponent of \<open>x\<close>, not below
  \<open>-1022\<close> (below it the numbers are subnormal, with spacing \<open>2^(-1074)\<close>).
\<close>

definition ulp_exponent :: "rat \<Rightarrow> int" where
  "ulp_exponent x = max (ilog2 \<bar>x\<bar>) (- 1022) - 52"

definition round_binary64 :: "rat \<Rightarrow> rat" where
  "round_binary64 x =
     (if x = 0 then 0
      else let e = ulp_exponent x in of_int (round_half_even (x / 2 powi e)) * 2 powi e)"

text \<open>A rounded value of magnitude \<open>2^1024\<close> or more is outside the finite floats.\<close>

definition float_max_bound :: rat where
  "float_max_bound = 2 ^ 1024"

text \<open>
  \<open>a / b\<close> on Python ints: \<open>ZeroDivisionError\<close> for a zero divisor, \<open>OverflowError\<close>
  ("integer division result too large for a float") when the rounded quotient is not a
  finite float, the correctly rounded quotient otherwise.
\<close>

definition int_true_div :: "int \<Rightarrow> int \<Rightarrow> py_error + rat" where
  "int_true_div a b =
     (if b = 0 then Inl ZeroDivisionError
      else let r = round_binary64 (of_int a / of_int b)
           in if float_max_bound \<le> \<bar>r\<bar> then Inl OverflowError else Inr r)"

text \<open>\<open>x * y\<close> on two finite Python floats: the rounded product, an infinity on overflow.\<close>

definition float_mul :: "rat \<Rightarrow> rat \<Rightarrow> pyfloat" where
  "float_mul x y =
     (let r = round_binary64 (x * y)
      in if float_max_bound \<le> r then PosInf
         else if r \<le> - float_max_bound then NegInf
         else Finite r)"

text \<open>A decimal literal of the source text denotes the nearest float.\<close>

definition float_literal :: "rat \<Rightarrow> rat" where
  "float_literal x = round_binary64 x"

fun pyfloat_le :: "pyfloat \<Rightarrow> pyfloat \<Rightarrow> bool" where
  "pyfloat_le NegInf y = True"
| "pyfloat_le x PosInf = True"
| "pyfloat_le (Finite a) (Finite b) = (a \<le> b)"
| "pyfloat_le x y = False"

text \<open>\<open>str(n)\<close> for a non-negative int, and the format \<open>:.2f\<close> of a float.\<close>

definition digit_char :: "nat \<Rightarrow> char" where
  "digit_char n = ''0123456789'' ! (n mod 10)"

function str_nat :: "nat \<Rightarrow> string" where
  "str_nat n = (if n < 10 then [digit_char n] else str_nat (n div 10) @ [digit_char n])"
  by pat_completeness auto
termination
  by (relation "measure id") auto

definition format_2f :: "pyfloat \<Rightarrow> string" where
  "format_2f x =
     (case x of
        PosInf \<Rightarrow> ''inf''
      | NegInf \<Rightarrow> ''-inf''
      | Finite r \<Rightarrow>
          let c = nat (round_half_even (\<bar>r\<bar> * 100))
          in (if r < 0 then ''-'' else '''') @ str_nat (c div 100) @ ''.''
             @ [digit_char (c div 10), digit_char c])"

section \<open>Documents and the token counter (Task 3)\<close>

record document =
  page_content :: string
  metadata :: "(string \<times> string) list"

text \<open>
  The tokenizer \<open>encoder = tiktoken.encoding_for_model('text-embedding-ada-002')\<close> is a
  library object: \<open>encode\<close> is a parameter, a function from a text to its tokens.
\<close>

definition doc_tokens :: "(string \<Rightarrow> 'tok list) \<Rightarrow> document list \<Rightarrow> nat list" where
  "doc_tokens encode documents = map (\<lambda>d. length (encode (page_content d))) documents"

definition total_tokens :: "(string \<Rightarrow> 'tok list) \<Rightarrow> document list \<Rightarrow> nat" where
  "total_tokens encode documents = sum_list (doc_tokens encode documents)"

text \<open>
  The literal \<open>0.0004\<close>, the price in dollars of 1000 tokens, and the expression
  \<open>(n/1000) * 0.0004\<close> of the cell at a token sum \<open>n\<close>.
\<close>

definition price_per_1k_tokens :: rat where
  "price_per_1k_tokens = float_literal (4 / 10000)"

definition estimate_of_sum :: "nat \<Rightarrow> py_error + pyfloat" where
  "estimate_of_sum n =
     (case int_true_div (int n) 1000 of
        Inl e \<Rightarrow> Inl e
      | Inr q \<Rightarrow> Inr (float_mul q price_per_1k_tokens))"

definition cost_estimate :: "(string \<Rightarrow> 'tok list) \<Rightarrow> document list \<Rightarrow> py_error + pyfloat" where
  "cost_estimate encode documents = estimate_of_sum (sum_list (doc_tokens encode documents))"

definition cost_line :: "nat \<Rightarrow> pyfloat \<Rightarrow> string" where
  "cost_line n cost = str_nat n @ '' tokens, cost estimate: $'' @ format_2f cost"

text \<open>
  The formula of the specification, in exact arithmetic:
  \<open>(total_tokens / 1000) * price_per_1k_tokens\<close>.
\<close>

definition spec_cost :: "nat \<Rightarrow> rat \<Rightarrow> rat" where
  "spec_cost n price = (of_nat n / 1000) * price"

section \<open>Libraries, services and the world of the notebook\<close>

text \<open>
  Every other cell of the notebook calls the libraries langchain, chromadb and tiktoken, and
  through them two remote services. Their code is not part of the repository. What they
  compute is a parameter of the model: one record holds the functions of the loader, the text
  splitter, the tokenizer, the embedding service, the vector distance of the store, the
  library's default number of results, and the chat-completion service (temperature and
  prompt to response text). Nothing is assumed about these functions.
\<close>

record ('v, 'd) externals =
  loader_load :: "string \<Rightarrow> document list"
  splitter_split_text :: "nat \<Rightarrow> nat \<Rightarrow> string \<Rightarrow> string list"
  encoder_encode :: "string \<Rightarrow> nat list"
  embed_text :: "string \<Rightarrow> 'v"
  vector_distance :: "'v \<Rightarrow> 'v \<Rightarrow> 'd"
  default_k :: nat
  chat_api :: "rat \<Rightarrow> string \<Rightarrow> string"

text \<open>
  An entry of the vector store (the identifier that the store generates is not kept), and the
  handle \<open>db\<close> of an opened store: its directory and the entries it has loaded.
\<close>

record 'v entry =
  vector :: 'v
  entry_text :: string
  entry_metadata :: "(string \<times> string) list"

record 'v chroma =
  persist_directory :: string
  collection :: "'v entry list"

text \<open>
  The effects of a run, in the order in which they happen, and the stage of the pipeline each
  belongs to.
\<close>

datatype call =
    LoadDocuments string
  | SplitDocuments nat nat
  | CountTokens
  | EmbedDocuments "string list"
  | PersistStore string
  | OpenStore string
  | QueryStore string nat
  | ChatCompletion rat string

datatype stage = Loading | Chunking | TokenCounting | EmbeddingStore | Retrieval | Chat

fun stage_of :: "call \<Rightarrow> stage" where
  "stage_of (LoadDocuments p) = Loading"
| "stage_of (SplitDocuments n m) = Chunking"
| "stage_of CountTokens = TokenCounting"
| "stage_of (EmbedDocuments ts) = EmbeddingStore"
| "stage_of (PersistStore p) = EmbeddingStore"
| "stage_of (OpenStore p) = EmbeddingStore"
| "stage_of (QueryStore q k) = Retrieval"
| "stage_of (ChatCompletion t p) = Chat"

fun writes_store :: "call \<Rightarrow> bool" where
  "writes_store (EmbedDocuments ts) = True"
| "writes_store (PersistStore p) = True"
| "writes_store c = False"

text \<open>
  The world a cell runs in: the process environment, the vector stores persisted on disk (by
  directory), and the calls made so far. A cell either raises or returns a value, and leaves
  a world; a raised exception ends the run.
\<close>

record 'v world =
  environ :: "string \<rightharpoonup> string"
  persisted :: "string \<rightharpoonup> 'v entry list"
  calls :: "call list"

type_synonym ('v, 'a) action = "'v world \<Rightarrow> (py_error + 'a) \<times> 'v world"

definition returns :: "'a \<Rightarrow> ('v, 'a) action" where
  "returns a w = (Inr a, w)"

definition raises :: "py_error \<Rightarrow> ('v, 'a) action" where
  "raises e w = (Inl e, w)"

definition and_then :: "('v, 'a) action \<Rightarrow> ('a \<Rightarrow> ('v, 'b) action) \<Rightarrow> ('v, 'b) action" where
  "and_then m f w = (case m w of (Inl e, w') \<Rightarrow> (Inl e, w') | (Inr a, w') \<Rightarrow> f a w')"

definition record_call :: "call \<Rightarrow> ('v, unit) action" where
  "record_call c w = (Inr (), w\<lparr>calls := calls w @ [c]\<rparr>)"

section \<open>The library operations\<close>

text \<open>
  Modelled from the spec: \<open>ReadTheDocsLoader(path, features='html.parser').load()\<close> is library
  code, not under src/. The specification (4.1) says that it reads a directory of HTML files
  and yields one document per file; which documents is the parameter \<open>loader_load\<close>.
\<close>

definition ReadTheDocsLoader_load :: "('v, 'd) externals \<Rightarrow> string \<Rightarrow> ('v, document list) action" where
  "ReadTheDocsLoader_load X path =
     and_then (record_call (LoadDocuments path)) (\<lambda>_. returns (loader_load X path))"

text \<open>
  Modelled from the spec: the method \<open>split_documents\<close> of the text splitter is library code,
  not under src/. The specification (3, Chunk) says that a chunk is created by the chunker
  from one document and inherits the metadata of its parent document. How a text is cut is
  the parameter \<open>splitter_split_text\<close>.
\<close>

definition split_documents ::
  "('v, 'd) externals \<Rightarrow> nat \<Rightarrow> nat \<Rightarrow> document list \<Rightarrow> ('v, document list) action" where
  "split_documents X chunk_size chunk_overlap docs =
     and_then (record_call (SplitDocuments chunk_size chunk_overlap)) (\<lambda>_.
       returns (concat (map (\<lambda>d. map (\<lambda>t. \<lparr>page_content = t, metadata = metadata d\<rparr>)
                                     (splitter_split_text X chunk_size chunk_overlap (page_content d)))
                            docs)))"

text \<open>
  Modelled from the spec: the read of the credential is in the constructors of the library's
  clients, \<open>OpenAIEmbeddings()\<close> and \<open>ChatOpenAI(...)\<close>, which are not under src/. The
  specification (6, Environment configuration) says that the API credential is read from the
  process environment and that its absence is a fatal configuration error. The notebook names
  the variable \<open>OPENAI_API_KEY\<close> and never reads it itself, so the read happens where a client
  of the service is constructed. The client that \<open>OpenAIEmbeddings()\<close> returns is represented
  by the key it holds, the one of \<open>ChatOpenAI(temperature=t)\<close> by its temperature.
\<close>

definition read_credential :: "('v, string) action" where
  "read_credential w =
     (case environ w ''OPENAI_API_KEY'' of
        None \<Rightarrow> (Inl ConfigurationError, w)
      | Some key \<Rightarrow> (Inr key, w))"

text \<open>
  Modelled from the spec: \<open>OpenAIEmbeddings()\<close> is library code, not under src/. It is the
  first client of the service that the notebook constructs, and reads the credential (spec 6).
\<close>

definition OpenAIEmbeddings :: "('v, string) action" where
  "OpenAIEmbeddings = read_credential"

text \<open>
  Modelled from the spec: \<open>ChatOpenAI(temperature=t)\<close> is library code, not under src/. It
  reads the credential as well (spec 6) and keeps the sampling temperature (spec 4.5, step d).
\<close>

definition ChatOpenAI :: "rat \<Rightarrow> ('v, rat) action" where
  "ChatOpenAI temperature = and_then read_credential (\<lambda>key. returns temperature)"

text \<open>
  Modelled from the spec: the vector store \<open>Chroma\<close> is library code, not under src/. The
  specification (3, 6) says that the store is a directory on disk holding the entries. The
  entries persisted under a directory, none when there is no such store:
\<close>

definition stored :: "'v world \<Rightarrow> string \<Rightarrow> 'v entry list" where
  "stored w dir = (case persisted w dir of None \<Rightarrow> [] | Some es \<Rightarrow> es)"

text \<open>
  Modelled from the spec: \<open>Chroma.from_documents(documents, embedding, persist_directory)\<close> is
  library code, not under src/. It is the first half of \<open>ingest(chunks)\<close> of the specification
  (4.4): for each chunk, an embedding vector is requested from the external API and the entry
  (vector, text, metadata) is added to the store, which is append-only during ingestion.
\<close>

definition Chroma_from_documents ::
  "('v, 'd) externals \<Rightarrow> document list \<Rightarrow> string \<Rightarrow> string \<Rightarrow> ('v, 'v chroma) action" where
  "Chroma_from_documents X docs embedding dir w =
     (Inr \<lparr>persist_directory = dir,
           collection = stored w dir
             @ map (\<lambda>d. \<lparr>vector = embed_text X (page_content d), entry_text = page_content d,
                         entry_metadata = metadata d\<rparr>) docs\<rparr>,
      w\<lparr>calls := calls w @ [EmbedDocuments (map page_content docs)]\<rparr>)"

text \<open>
  Modelled from the spec: \<open>db.persist()\<close> is library code, not under src/. It is the second
  half of \<open>ingest(chunks)\<close> (4.4): the entries are written to the persistent store.
\<close>

definition Chroma_persist :: "'v chroma \<Rightarrow> ('v, unit) action" where
  "Chroma_persist db w =
     (Inr (),
      w\<lparr>persisted := (persisted w)(persist_directory db \<mapsto> collection db),
        calls := calls w @ [PersistStore (persist_directory db)]\<rparr>)"

text \<open>
  Modelled from the spec: \<open>Chroma(persist_directory, embedding_function)\<close> is library code, not
  under src/. It is \<open>load(persist_path)\<close> of the specification (4.4): it opens an existing
  on-disk store without re-embedding.
\<close>

definition Chroma :: "string \<Rightarrow> string \<Rightarrow> ('v, 'v chroma) action" where
  "Chroma dir embedding w =
     (Inr \<lparr>persist_directory = dir, collection = stored w dir\<rparr>,
      w\<lparr>calls := calls w @ [OpenStore dir]\<rparr>)"

text \<open>
  Modelled from the spec: the results of the store are built by library code, not under src/.
  The specification (3, Query Result) says that a query result is the chunk text, the
  metadata and the distance.
\<close>

definition scored :: "('v, 'd) externals \<Rightarrow> 'v \<Rightarrow> 'v entry \<Rightarrow> document \<times> 'd" where
  "scored X v e =
     (\<lparr>page_content = entry_text e, metadata = entry_metadata e\<rparr>, vector_distance X v (vector e))"

text \<open>
  Modelled from the spec: the query of the vector store is library code, not under src/. The
  specification (4.4) says: \<open>query(text, k)\<close> embeds \<open>text\<close> via the same external embedding
  model used at ingestion, computes nearest neighbors by vector distance, returns the \<open>k\<close>
  closest entries ordered by ascending distance. Entries at equal distance keep the order of
  the store.
\<close>

definition query ::
  "('v, 'd::linorder) externals \<Rightarrow> 'v entry list \<Rightarrow> string \<Rightarrow> nat \<Rightarrow> (document \<times> 'd) list" where
  "query X entries text k = take k (sort_key snd (map (scored X (embed_text X text)) entries))"

text \<open>
  Modelled from the spec: \<open>db.similarity_search_with_score(text)\<close> is library code, not under
  src/. It is the query of the specification (4.4), with its distances. An omitted \<open>k\<close> is
  the library's default.
\<close>

definition similarity_search_with_score ::
  "('v, 'd::linorder) externals \<Rightarrow> 'v chroma \<Rightarrow> string \<Rightarrow> nat option
     \<Rightarrow> ('v, (document \<times> 'd) list) action" where
  "similarity_search_with_score X db text k_arg =
     (let k = (case k_arg of None \<Rightarrow> default_k X | Some k \<Rightarrow> k)
      in and_then (record_call (QueryStore text k)) (\<lambda>_. returns (query X (collection db) text k)))"

text \<open>
  Modelled from the spec: \<open>db.similarity_search(text)\<close> is library code, not under src/. It is
  the same query (4.4, and 4.5 step a), returning the chunks without their distances.
\<close>

definition similarity_search ::
  "('v, 'd::linorder) externals \<Rightarrow> 'v chroma \<Rightarrow> string \<Rightarrow> nat option \<Rightarrow> ('v, document list) action" where
  "similarity_search X db text k_arg =
     and_then (similarity_search_with_score X db text k_arg) (\<lambda>rs. returns (map fst rs))"

text \<open>
  Modelled from the spec: \<open>PromptTemplate\<close> is library code, not under src/. The
  specification (4.5, step c; glossary) says that a prompt template is a string with named
  placeholders filled at call time, and the notebook describes it so: "values in curly braces
  are used as placeholder and will be replaced by values we pass when running the chain",
  like Python's \<open>str.format\<close> with keyword arguments. A doubled brace stands for the brace itself, a
  placeholder without a value is a \<open>KeyError\<close>, an unbalanced brace a \<open>ValueError\<close>.
  Conversions and format specifications inside a placeholder are not modelled; the template
  of the notebook has none. The second argument is the name of the placeholder being read.
\<close>

record prompt_template =
  template :: string
  input_variables :: "string list"

fun format_fields :: "(string \<rightharpoonup> string) \<Rightarrow> string option \<Rightarrow> string \<Rightarrow> py_error + string" where
  "format_fields kw None [] = Inr []"
| "format_fields kw (Some name) [] = Inl ValueError"
| "format_fields kw None (c # cs) =
     (if c = CHR ''{'' then
        (case cs of
           [] \<Rightarrow> Inl ValueError
         | d # ds \<Rightarrow>
             if d = CHR ''{'' then map_sum id ((#) c) (format_fields kw None ds)
             else format_fields kw (Some []) cs)
      else if c = CHR ''}'' then
        (case cs of
           [] \<Rightarrow> Inl ValueError
         | d # ds \<Rightarrow>
             if d = CHR ''}'' then map_sum id ((#) c) (format_fields kw None ds)
             else Inl ValueError)
      else map_sum id ((#) c) (format_fields kw None cs))"
| "format_fields kw (Some name) (c # cs) =
     (if c = CHR ''}'' then
        (case kw name of
           None \<Rightarrow> Inl (KeyError name)
         | Some v \<Rightarrow> map_sum id ((@) v) (format_fields kw None cs))
      else format_fields kw (Some (name @ [c])) cs)"

definition format_prompt :: "prompt_template \<Rightarrow> (string \<times> string) list \<Rightarrow> py_error + string" where
  "format_prompt p inputs = format_fields (map_of inputs) None (template p)"

text \<open>
  Modelled from the spec: \<open>LLMChain(llm=llm, prompt=prompt)\<close>, called on a dict of inputs, is
  library code, not under src/. The specification (4.5, steps c to e) says: substitute the
  inputs into the prompt template, send the filled prompt to the chat-completion API with the
  sampling parameters of the model, return the response text. The notebook says the same: the
  call "will return a dict with a \<open>text\<close> key containing the LLM response". The value
  returned here is that text.
\<close>

definition LLMChain ::
  "('v, 'd) externals \<Rightarrow> rat \<Rightarrow> prompt_template \<Rightarrow> (string \<times> string) list \<Rightarrow> ('v, string) action" where
  "LLMChain X llm p inputs =
     (case format_prompt p inputs of
        Inl e \<Rightarrow> raises e
      | Inr text \<Rightarrow>
          and_then (record_call (ChatCompletion llm text)) (\<lambda>_. returns (chat_api X llm text)))"

text \<open>\<open>sep.join(xs)\<close> on strings.\<close>

fun join :: "string \<Rightarrow> string list \<Rightarrow> string" where
  "join sep [] = []"
| "join sep [x] = x"
| "join sep (x # y # ys) = x @ sep @ join sep (y # ys)"

section \<open>The cells of the notebook\<close>

text \<open>
  Task 1: \<open>raw_documents = loader.load()\<close>, the loader on the directory of HTML files.
  Task 2: \<open>documents = text_splitter.split_documents(raw_documents)\<close>, with \<open>chunk_size=1000\<close>
  and \<open>chunk_overlap=200\<close>. Task 3: the token count and the printed cost estimate.
\<close>

definition rtdocs_path :: string where
  "rtdocs_path = ''rtdocs/python.langchain.com/en/latest''"

definition task1_cell :: "('v, 'd) externals \<Rightarrow> ('v, document list) action" where
  "task1_cell X = ReadTheDocsLoader_load X rtdocs_path"

definition task2_cell :: "('v, 'd) externals \<Rightarrow> document list \<Rightarrow> ('v, document list) action" where
  "task2_cell X raw_documents = split_documents X 1000 200 raw_documents"

definition task3_cell :: "('v, 'd) externals \<Rightarrow> document list \<Rightarrow> ('v, string) action" where
  "task3_cell X documents =
     and_then (record_call CountTokens) (\<lambda>_.
       case cost_estimate (encoder_encode X) documents of
         Inl e \<Rightarrow> raises e
       | Inr cost \<Rightarrow> returns (cost_line (total_tokens (encoder_encode X) documents) cost))"

text \<open>
  Task 4: \<open>embedding = OpenAIEmbeddings()\<close>. The two lines that follow in the cell are
  comments,
  \<^verbatim>\<open>
  #db = Chroma.from_documents(documents=documents, embedding=embedding, persist_directory="my-embeddings")
  #db.persist()
  \<close>
  so the cell does nothing else. The cell after it opens the store that comes with the
  notebook:
  \<open>db = Chroma(persist_directory="chroma-data-langchain-docs", embedding_function=embedding)\<close>.
\<close>

definition task4_cell :: "('v, string) action" where
  "task4_cell = OpenAIEmbeddings"

definition store_path :: string where
  "store_path = ''chroma-data-langchain-docs''"

definition alternative_cell :: "('v, 'v chroma) action" where
  "alternative_cell = and_then OpenAIEmbeddings (\<lambda>embedding. Chroma store_path embedding)"

text \<open>Step 5: \<open>results = db.similarity_search_with_score("how to load data from wikipedia?")\<close>.\<close>

definition step5_cell :: "('v, 'd::linorder) externals \<Rightarrow> 'v chroma \<Rightarrow> ('v, (document \<times> 'd) list) action" where
  "step5_cell X db = similarity_search_with_score X db ''how to load data from wikipedia?'' None"

text \<open>
  Step 6, for a question:
  \<^verbatim>\<open>
  context_docs = db.similarity_search(question)
  prompt = PromptTemplate(template=..., input_variables=["context", "question"])
  llm = ChatOpenAI(temperature=0)
  qa_chain = LLMChain(llm=llm, prompt=prompt)
  result = qa_chain({"context": "\n".join([d.page_content for d in context_docs]),
                     "question": question})
  print(result["text"])
  \<close>
  The template literal of the source opens with four double quotes: three open the string,
  the fourth is its first character.
\<close>

definition prompt :: prompt_template where
  "prompt =
     \<lparr>template =
        [CHR 0x22] @ ''Use the following pieces of context to answer the question at the end. ''
        @ ''If you don'' @ [CHR 0x27] @ ''t know the answer, just say that you don'' @ [CHR 0x27]
        @ ''t know, don'' @ [CHR 0x27] @ ''t try to make up an answer.'' @ [CHR 0x0A, CHR 0x0A]
        @ ''<context>'' @ [CHR 0x0A] @ ''{context}'' @ [CHR 0x0A] @ ''</context>''
        @ [CHR 0x0A, CHR 0x0A] @ ''Question: {question}'' @ [CHR 0x0A] @ ''Helpful Answer:'',
      input_variables = [''context'', ''question'']\<rparr>"

definition qa_chain ::
  "('v, 'd::linorder) externals \<Rightarrow> 'v chroma \<Rightarrow> string \<Rightarrow> ('v, document list \<times> string) action" where
  "qa_chain X db question =
     and_then (similarity_search X db question None) (\<lambda>context_docs.
     and_then (ChatOpenAI 0) (\<lambda>llm.
     and_then (LLMChain X llm prompt
                 [(''context'', join [CHR 0x0A] (map page_content context_docs)),
                  (''question'', question)]) (\<lambda>text.
     returns (context_docs, text))))"

definition step6_cell ::
  "('v, 'd::linorder) externals \<Rightarrow> 'v chroma \<Rightarrow> ('v, document list \<times> string) action" where
  "step6_cell X db = qa_chain X db ''how can I make a chain remember previous messages?''"

text \<open>
  The notebook: its cells in order. What it prints and the variables the claims are about
  are its result.
\<close>

record 'd outputs =
  cost_output :: string
  results :: "(document \<times> 'd) list"
  context_docs :: "document list"
  answer :: string

definition notebook :: "('v, 'd::linorder) externals \<Rightarrow> ('v, 'd outputs) action" where
  "notebook X =
     and_then (task1_cell X) (\<lambda>raw_documents.
     and_then (task2_cell X raw_documents) (\<lambda>documents.
     and_then (task3_cell X documents) (\<lambda>line.
     and_then task4_cell (\<lambda>embedding.
     and_then alternative_cell (\<lambda>db.
     and_then (step5_cell X db) (\<lambda>rs.
     and_then (step6_cell X db) (\<lambda>qa.
     returns \<lparr>cost_output = line, results = rs, context_docs = fst qa, answer = snd qa\<rparr>)))))))"

text \<open>
  The prompt of the specification (4.5, step c): the fixed template with the context and the
  question in the place of its two placeholders.
\<close>

definition filled_prompt :: "string \<Rightarrow> string \<Rightarrow> string" where
  "filled_prompt context question =
     [CHR 0x22] @ ''Use the following pieces of context to answer the question at the end. ''
     @ ''If you don'' @ [CHR 0x27] @ ''t know the answer, just say that you don'' @ [CHR 0x27]
     @ ''t know, don'' @ [CHR 0x27] @ ''t try to make up an answer.'' @ [CHR 0x0A, CHR 0x0A]
     @ ''<context>'' @ [CHR 0x0A] @ context @ [CHR 0x0A] @ ''</context>''
     @ [CHR 0x0A, CHR 0x0A] @ ''Question: '' @ question @ [CHR 0x0A] @ ''Helpful Answer:''"

text \<open>
  The value of the variable \<open>documents\<close> after Task 2, the calls of the first three cells, and
  the two questions of the notebook.
\<close>

definition chunked :: "('v, 'd) externals \<Rightarrow> document list" where
  "chunked X =
     concat (map (\<lambda>d. map (\<lambda>t. \<lparr>page_content = t, metadata = metadata d\<rparr>)
                          (splitter_split_text X 1000 200 (page_content d)))
                 (loader_load X rtdocs_path))"

definition first_calls :: "call list" where
  "first_calls = [LoadDocuments rtdocs_path, SplitDocuments 1000 200, CountTokens]"

definition question5 :: string where
  "question5 = ''how to load data from wikipedia?''"

definition question6 :: string where
  "question6 = ''how can I make a chain remember previous messages?''"

section \<open>Sample inputs\<close>

text \<open>
  A tokenizer that is not the identity, one token for every two characters, and two corpora:
  chunks of 200000 and 100000 characters, that is 100000 and 50000 tokens, and the same with a
  chunk of 12 characters, 6 tokens, in front.
\<close>

definition sample_tokenizer :: "string \<Rightarrow> nat list" where
  "sample_tokenizer s = replicate (length s div 2) 0"

definition sample_corpus :: "document list" where
  "sample_corpus =
     [\<lparr>page_content = replicate 200000 CHR ''a'', metadata = []\<rparr>,
      \<lparr>page_content = replicate 100000 CHR ''b'', metadata = []\<rparr>]"

definition sample_corpus_more :: "document list" where
  "sample_corpus_more = \<lparr>page_content = ''Hello, world'', metadata = []\<rparr> # sample_corpus"

text \<open>
  A small instance of the libraries: two pages, a splitter that keeps each page whole, one
  token per character, texts embedded as their length, and the absolute difference as the
  distance. A store of five entries, a world with the credential and one without.
\<close>

definition sample_externals :: "(nat, nat) externals" where
  "sample_externals =
     \<lparr>loader_load = (\<lambda>path.
        [\<lparr>page_content = ''Alpha Beta Gamma'', metadata = [(''source'', ''alpha.html'')]\<rparr>,
         \<lparr>page_content = ''Delta Epsilon Zeta'', metadata = [(''source'', ''delta.html'')]\<rparr>]),
      splitter_split_text = (\<lambda>chunk_size chunk_overlap text. [text]),
      encoder_encode = map of_char,
      embed_text = length,
      vector_distance = (\<lambda>a b. if a \<le> b then b - a else a - b),
      default_k = 4,
      chat_api = (\<lambda>temperature text. ''Use a memory class.'')\<rparr>"

definition sample_store :: "nat entry list" where
  "sample_store =
     [\<lparr>vector = 10, entry_text = ''A'', entry_metadata = []\<rparr>,
      \<lparr>vector = 33, entry_text = ''B'', entry_metadata = []\<rparr>,
      \<lparr>vector = 48, entry_text = ''C'', entry_metadata = []\<rparr>,
      \<lparr>vector = 60, entry_text = ''D'', entry_metadata = []\<rparr>,
      \<lparr>vector = 35, entry_text = ''E'', entry_metadata = []\<rparr>]"

definition sample_world :: "nat world" where
  "sample_world =
     \<lparr>environ = [''OPENAI_API_KEY'' \<mapsto> ''sk-sample''],
      persisted = [''chroma-data-langchain-docs'' \<mapsto> sample_store],
      calls = []\<rparr>"

definition sample_world_without_key :: "nat world" where
  "sample_world_without_key = sample_world\<lparr>environ := Map.empty\<rparr>"

definition sample_document :: "string \<Rightarrow> document" where
  "sample_document t = \<lparr>page_content = t, metadata = []\<rparr>"

definition sample_prompt :: string where
  "sample_prompt = filled_prompt (''C'' @ [CHR 0x0A] @ ''D'' @ [CHR 0x0A] @ ''E'' @ [CHR 0x0A] @ ''B'') question6"

definition sample_outputs :: "nat outputs" where
  "sample_outputs =
     \<lparr>cost_output = ''34 tokens, cost estimate: $0.00'',
      results =
        [(sample_document ''B'', 1), (sample_document ''E'', 3),
         (sample_document ''C'', 16), (sample_document ''A'', 22)],
      context_docs =
        [sample_document ''C'', sample_document ''D'', sample_document ''E'', sample_document ''B''],
      answer = ''Use a memory class.''\<rparr>"

definition sample_calls :: "call list" where
  "sample_calls =
     [LoadDocuments rtdocs_path, SplitDocuments 1000 200, CountTokens, OpenStore store_path,
      QueryStore question5 4, QueryStore question6 4, ChatCompletion 0 sample_prompt]"

section \<open>Properties of the rounding\<close>

lemma round_half_even_of_int: "round_half_even (of_int n) = n"
  by (simp add: round_half_even_def)

lemma round_half_even_bounds:
  "\<lfloor>x\<rfloor> \<le> round_half_even x" "round_half_even x \<le> \<lfloor>x\<rfloor> + 1"
  by (simp_all add: round_half_even_def Let_def)

lemma round_half_even_mono:
  assumes "x \<le> y"
  shows "round_half_even x \<le> round_half_even y"
proof (cases "\<lfloor>x\<rfloor> = \<lfloor>y\<rfloor>")
  case True
  then show ?thesis using assms
    by (auto simp add: round_half_even_def Let_def)
next
  case False
  have "\<lfloor>x\<rfloor> \<le> \<lfloor>y\<rfloor>" using assms by (rule floor_mono)
  with False have "\<lfloor>x\<rfloor> + 1 \<le> \<lfloor>y\<rfloor>" by simp
  then show ?thesis
    using round_half_even_bounds(2) [of x] round_half_even_bounds(1) [of y] by linarith
qed

lemma round_half_even_error: "\<bar>of_int (round_half_even x) - x\<bar> \<le> 1/2"
proof -
  define f where "f = \<lfloor>x\<rfloor>"
  have b: "of_int f \<le> x" "x < of_int f + 1" unfolding f_def by linarith+
  have r: "round_half_even x = f \<and> x - of_int f \<le> 1/2
         \<or> round_half_even x = f + 1 \<and> 1/2 \<le> x - of_int f"
    unfolding round_half_even_def Let_def f_def [symmetric] by auto
  then show ?thesis
  proof
    assume "round_half_even x = f \<and> x - of_int f \<le> 1/2"
    then show ?thesis using b by (simp add: abs_if)
  next
    assume "round_half_even x = f + 1 \<and> 1/2 \<le> x - of_int f"
    then show ?thesis using b by (simp add: abs_if)
  qed
qed

lemma bitlen_pos: "0 < p \<Longrightarrow> 1 \<le> bitlen p"
  using bitlen_nonneg [of p] bitlen_eq_zero_iff [of p] by linarith

lemma bitlen_rat_bounds:
  assumes "0 < p"
  shows "(2::rat) powi (bitlen p - 1) \<le> of_int p" and "of_int p < (2::rat) powi (bitlen p)"
proof -
  have b: "2 ^ nat (bitlen p - 1) \<le> p" "p < 2 ^ nat (bitlen p)"
    using bitlen_bounds [OF assms] by simp_all
  have l: "1 \<le> bitlen p" using assms by (rule bitlen_pos)
  have "(of_int (2 ^ nat (bitlen p - 1)) :: rat) \<le> of_int p"
    using b(1) by (simp only: of_int_le_iff)
  then show "(2::rat) powi (bitlen p - 1) \<le> of_int p"
    using l by (simp add: power_int_def)
  have "(of_int p :: rat) < of_int (2 ^ nat (bitlen p))"
    using b(2) by (simp only: of_int_less_iff)
  then show "of_int p < (2::rat) powi (bitlen p)"
    using l by (simp add: power_int_def)
qed

lemma ilog2_bounds:
  assumes "0 < x"
  shows "2 powi (ilog2 x) \<le> x" and "x < 2 powi (ilog2 x + 1)"
proof -
  obtain p q where pq: "quotient_of x = (p, q)" by (cases "quotient_of x")
  then have q: "0 < q" by (rule quotient_of_denom_pos)
  from pq have x: "x = of_int p / of_int q" by (rule quotient_of_div)
  with assms q have p: "0 < p" by (simp add: zero_less_divide_iff)
  define d where "d = bitlen p - bitlen q"
  note P = bitlen_rat_bounds [OF p] and Q = bitlen_rat_bounds [OF q]
  have qpos: "(0::rat) < of_int q" using q by simp
  have up: "x < 2 powi (d + 1)"
  proof -
    have "of_int p < (2::rat) powi (d + 1) * 2 powi (bitlen q - 1)"
      using P(2) by (simp add: d_def flip: power_int_add)
    also have "\<dots> \<le> 2 powi (d + 1) * of_int q"
      using Q(1) by (intro mult_left_mono) simp_all
    finally show ?thesis using qpos by (simp add: x pos_divide_less_eq)
  qed
  have lo: "2 powi (d - 1) < x"
  proof -
    have "(2::rat) powi (d - 1) * of_int q < 2 powi (d - 1) * 2 powi (bitlen q)"
      using Q(2) by (intro mult_strict_left_mono) simp_all
    also have "\<dots> = 2 powi (bitlen p - 1)"
      by (simp add: d_def flip: power_int_add)
    also have "\<dots> \<le> of_int p" by (rule P(1))
    finally show ?thesis using qpos by (simp add: x pos_less_divide_eq)
  qed
  have il: "ilog2 x = (if 2 powi d \<le> x then d else d - 1)"
    by (simp add: ilog2_def pq d_def Let_def)
  show "2 powi (ilog2 x) \<le> x" using lo by (simp add: il)
  show "x < 2 powi (ilog2 x + 1)" using up by (auto simp add: il)
qed

lemma ilog2_mono:
  assumes "0 < x" "x \<le> y"
  shows "ilog2 x \<le> ilog2 y"
proof (rule ccontr)
  assume "\<not> ilog2 x \<le> ilog2 y"
  then have "ilog2 y + 1 \<le> ilog2 x" by simp
  then have "(2::rat) powi (ilog2 y + 1) \<le> 2 powi (ilog2 x)"
    by (rule power_int_increasing) simp
  also have "\<dots> \<le> x" using assms(1) by (rule ilog2_bounds)
  also have "\<dots> \<le> y" by (rule assms(2))
  also have "\<dots> < 2 powi (ilog2 y + 1)" using assms by (intro ilog2_bounds) simp
  finally show False by simp
qed

lemma ilog2_ge:
  assumes "2 powi k \<le> x"
  shows "k \<le> ilog2 x"
proof (rule ccontr)
  have x: "0 < x" using assms by (rule less_le_trans [rotated]) simp
  assume "\<not> k \<le> ilog2 x"
  then have "ilog2 x + 1 \<le> k" by simp
  then have "(2::rat) powi (ilog2 x + 1) \<le> 2 powi k"
    by (rule power_int_increasing) simp
  also have "\<dots> \<le> x" by (rule assms)
  also have "\<dots> < 2 powi (ilog2 x + 1)" using x by (rule ilog2_bounds)
  finally show False by simp
qed

lemma round_binary64_nonneg:
  assumes "0 \<le> x"
  shows "0 \<le> round_binary64 x"
proof -
  have "0 \<le> x / 2 powi (ulp_exponent x)" using assms by simp
  then have "0 \<le> \<lfloor>x / 2 powi (ulp_exponent x)\<rfloor>" by simp
  then have "0 \<le> round_half_even (x / 2 powi (ulp_exponent x))"
    using round_half_even_bounds(1) [of "x / 2 powi (ulp_exponent x)"] by linarith
  then show ?thesis by (simp add: round_binary64_def Let_def)
qed

lemma round_binary64_mono_pos:
  assumes "0 < x" "x \<le> y"
  shows "round_binary64 x \<le> round_binary64 y"
proof -
  have y: "0 < y" using assms by simp
  define E where "E = ulp_exponent x"
  define F where "F = ulp_exponent y"
  have rx: "round_binary64 x = of_int (round_half_even (x / 2 powi E)) * 2 powi E"
    using assms(1) by (simp add: round_binary64_def E_def Let_def)
  have ry: "round_binary64 y = of_int (round_half_even (y / 2 powi F)) * 2 powi F"
    using y by (simp add: round_binary64_def F_def Let_def)
  have EF: "E \<le> F"
    using ilog2_mono [OF assms] assms(1) y by (simp add: E_def F_def ulp_exponent_def)
  show ?thesis
  proof (cases "E = F")
    case True
    have "x / 2 powi F \<le> y / 2 powi F" using assms(2) by (simp add: divide_right_mono)
    then have "round_half_even (x / 2 powi F) \<le> round_half_even (y / 2 powi F)"
      by (rule round_half_even_mono)
    then have "(of_int (round_half_even (x / 2 powi F)) :: rat)
        \<le> of_int (round_half_even (y / 2 powi F))"
      by (simp only: of_int_le_iff)
    then show ?thesis unfolding rx ry True
      by (intro mult_right_mono) simp_all
  next
    case False
    with EF have lt: "E + 1 \<le> F" by simp
    have "ilog2 x \<le> E + 52" using assms(1) by (simp add: E_def ulp_exponent_def)
    then have "ilog2 x + 1 \<le> E + 53" by simp
    then have "(2::rat) powi (ilog2 x + 1) \<le> 2 powi (E + 53)"
      by (rule power_int_increasing) simp
    with ilog2_bounds(2) [OF assms(1)] have "x < 2 powi (E + 53)" by simp
    also have "\<dots> = 2 powi E * 2 ^ 53" by (simp add: power_int_add)
    finally have "x / 2 powi E \<le> 2 ^ 53" by (simp add: pos_divide_le_eq mult.commute)
    then have "x / 2 powi E \<le> of_int (2 ^ 53)" by simp
    then have "round_half_even (x / 2 powi E) \<le> round_half_even (of_int (2 ^ 53))"
      by (rule round_half_even_mono)
    then have "round_half_even (x / 2 powi E) \<le> 2 ^ 53"
      by (simp only: round_half_even_of_int)
    then have "(of_int (round_half_even (x / 2 powi E)) :: rat) \<le> of_int (2 ^ 53)"
      by (simp only: of_int_le_iff)
    then have "round_binary64 x \<le> of_int (2 ^ 53) * 2 powi E"
      unfolding rx by (intro mult_right_mono) simp_all
    also have "\<dots> = 2 powi (E + 53)" by (simp add: power_int_add)
    also have "\<dots> \<le> 2 powi (F + 52)"
      using lt by (intro power_int_increasing) simp_all
    finally have up: "round_binary64 x \<le> 2 powi (F + 52)" .
    have "- 1022 - 52 \<le> E" by (simp add: E_def ulp_exponent_def)
    with lt have "- 1022 < F + 52" by simp
    then have Fy: "ilog2 y = F + 52"
      using y by (simp add: F_def ulp_exponent_def max_def split: if_splits)
    have "(2::rat) powi (F + 52) \<le> y" using ilog2_bounds(1) [OF y] by (simp add: Fy)
    then have "2 powi F * (2::rat) ^ 52 \<le> y" by (simp add: power_int_add)
    then have "of_int (2 ^ 52) \<le> y / 2 powi F" by (simp add: pos_le_divide_eq mult.commute)
    then have "round_half_even (of_int (2 ^ 52)) \<le> round_half_even (y / 2 powi F)"
      by (rule round_half_even_mono)
    then have "2 ^ 52 \<le> round_half_even (y / 2 powi F)"
      by (simp only: round_half_even_of_int)
    then have "(of_int (2 ^ 52) :: rat) \<le> of_int (round_half_even (y / 2 powi F))"
      by (simp only: of_int_le_iff)
    then have "of_int (2 ^ 52) * 2 powi F \<le> round_binary64 y"
      unfolding ry by (intro mult_right_mono) simp_all
    then have "2 powi (F + 52) \<le> round_binary64 y" by (simp add: power_int_add mult.commute)
    with up show ?thesis by simp
  qed
qed

lemma round_binary64_mono:
  assumes "0 \<le> x" "x \<le> y"
  shows "round_binary64 x \<le> round_binary64 y"
proof (cases "x = 0")
  case True
  then show ?thesis using round_binary64_nonneg [of y] assms by (simp add: round_binary64_def)
next
  case False
  with assms(1) have "0 < x" by simp
  then show ?thesis using assms(2) by (rule round_binary64_mono_pos)
qed

lemma round_binary64_rel_error:
  assumes "2 powi (- 1022) \<le> x"
  shows "\<bar>round_binary64 x - x\<bar> \<le> x / 2 ^ 53"
proof -
  have x: "0 < x" using assms by (rule less_le_trans [rotated]) simp
  define e where "e = ilog2 x"
  have "- 1022 \<le> e" unfolding e_def using assms by (rule ilog2_ge)
  then have E: "ulp_exponent x = e - 52" using x by (simp add: ulp_exponent_def e_def)
  define q where "q = x / 2 powi (e - 52)"
  have "round_binary64 x - x = (of_int (round_half_even q) - q) * 2 powi (e - 52)"
    using x by (simp add: round_binary64_def E q_def Let_def algebra_simps)
  then have "\<bar>round_binary64 x - x\<bar> = \<bar>of_int (round_half_even q) - q\<bar> * 2 powi (e - 52)"
    by (simp add: abs_mult)
  also have "\<dots> \<le> (1/2) * 2 powi (e - 52)"
    using round_half_even_error [of q] by (intro mult_right_mono) simp_all
  also have "\<dots> = 2 powi e / 2 ^ 53" by (simp add: power_int_diff)
  also have "\<dots> \<le> x / 2 ^ 53"
    using ilog2_bounds(1) [OF x] by (simp add: e_def divide_right_mono)
  finally show ?thesis .
qed

section \<open>The cost estimate\<close>

lemma price_value: "price_per_1k_tokens = 7378697629483821 / 18446744073709551616"
  unfolding price_per_1k_tokens_def by code_simp

lemma round_150: "round_binary64 150 = 150"
  by code_simp

lemma round_150_price: "round_binary64 (150 * (7378697629483821 / 18446744073709551616)) = 8646911284551353 / 2 ^ 57"
  by code_simp

lemma estimate_150000: "estimate_of_sum 150000 = Inr (Finite (8646911284551353 / 2 ^ 57))"
  using round_150_price
  by (simp add: estimate_of_sum_def int_true_div_def float_mul_def float_max_bound_def round_150 price_value)

lemma str_nat_150000: "str_nat 150000 = ''150000''"
  by (simp add: digit_char_def)

lemma format_2f_example: "format_2f (Finite (8646911284551353 / 2 ^ 57)) = ''0.06''"
  by code_simp

lemma cost_line_150000:
  "cost_line 150000 (Finite (8646911284551353 / 2 ^ 57)) = ''150000 tokens, cost estimate: $0.06''"
  unfolding cost_line_def format_2f_example str_nat_150000 by simp

lemma ilog2_pow2: "ilog2 (2 powi k) = k"
proof (rule antisym)
  show "k \<le> ilog2 (2 powi k)" by (rule ilog2_ge) simp
  have le: "(2::rat) powi (ilog2 (2 powi k)) \<le> 2 powi k"
    by (rule ilog2_bounds) simp
  show "ilog2 (2 powi k) \<le> k"
  proof (rule ccontr)
    assume "\<not> ilog2 (2 powi k) \<le> k"
    then have "k < ilog2 (2 powi k)" by simp
    then have "(2::rat) powi k < 2 powi (ilog2 (2 powi k))"
      by (rule power_int_strict_increasing) simp
    with le show False by simp
  qed
qed

lemma round_binary64_pow2:
  assumes "- 1022 \<le> k"
  shows "round_binary64 (2 powi k) = 2 powi k"
proof -
  have E: "ulp_exponent (2 powi k) = k - 52"
    using assms by (simp add: ulp_exponent_def ilog2_pow2)
  have "(2::rat) powi k / 2 powi (k - 52) = of_int (2 ^ 52)"
    by (simp add: power_int_diff)
  then have "round_half_even ((2::rat) powi k / 2 powi (k - 52)) = 2 ^ 52"
    by (simp only: round_half_even_of_int)
  then show ?thesis
    by (simp add: round_binary64_def E Let_def power_int_diff)
qed

lemma three_roundings:
  fixes x c0 q c r u :: rat
  assumes x: "0 \<le> x" and c0: "0 \<le> c0" and u: "0 \<le> u" "u \<le> 1/8"
    and q: "\<bar>q - x\<bar> \<le> x * u" and c: "\<bar>c - c0\<bar> \<le> c0 * u" and r: "\<bar>r - q * c\<bar> \<le> q * c * u"
  shows "\<bar>r - x * c0\<bar> \<le> 4 * u * (x * c0)"
proof -
  define a where "a = x * c0"
  define b where "b = a * u"
  define d where "d = b * u"
  define e where "e = d * u"
  have a0: "0 \<le> a" using x c0 by (simp add: a_def)
  have b0: "0 \<le> b" using a0 u by (simp add: b_def)
  have d0: "0 \<le> d" using b0 u by (simp add: d_def)
  have d8: "d \<le> b / 8" using mult_left_mono [OF u(2) b0] by (simp add: d_def)
  have e8: "e \<le> d / 8" using mult_left_mono [OF u(2) d0] by (simp add: e_def)
  have qu: "q \<le> x * (1 + u)" and ql: "x * (1 - u) \<le> q"
    using q by (simp_all add: abs_le_iff algebra_simps)
  have cu: "c \<le> c0 * (1 + u)" and cl: "c0 * (1 - u) \<le> c"
    using c by (simp_all add: abs_le_iff algebra_simps)
  have "0 \<le> x * (1 - u)" using x u by (intro mult_nonneg_nonneg) simp_all
  with ql have q0: "0 \<le> q" by simp
  have "0 \<le> c0 * (1 - u)" using c0 u by (intro mult_nonneg_nonneg) simp_all
  with cl have cc0: "0 \<le> c" by simp
  have "q * c \<le> (x * (1 + u)) * (c0 * (1 + u))"
    using qu cu cc0 x u by (intro mult_mono) simp_all
  also have "\<dots> = a + 2 * b + d" by (simp add: a_def b_def d_def algebra_simps)
  finally have qc: "q * c \<le> a + 2 * b + d" .
  have "q * c * u \<le> (a + 2 * b + d) * u" using qc u(1) by (rule mult_right_mono)
  also have "\<dots> = b + 2 * d + e" by (simp add: b_def d_def e_def algebra_simps)
  finally have t1: "q * c * u \<le> b + 2 * d + e" .
  have "q * \<bar>c - c0\<bar> \<le> (x * (1 + u)) * (c0 * u)"
    using qu c q0 c0 u by (intro mult_mono) simp_all
  also have "\<dots> = b + d" by (simp add: a_def b_def d_def algebra_simps)
  finally have t2: "q * \<bar>c - c0\<bar> \<le> b + d" .
  have "\<bar>q - x\<bar> * c0 \<le> (x * u) * c0" using q c0 by (rule mult_right_mono)
  also have "\<dots> = b" by (simp add: a_def b_def)
  finally have t3: "\<bar>q - x\<bar> * c0 \<le> b" .
  have "q * c - x * c0 = q * (c - c0) + (q - x) * c0" by (simp add: algebra_simps)
  then have "\<bar>q * c - x * c0\<bar> \<le> \<bar>q * (c - c0)\<bar> + \<bar>(q - x) * c0\<bar>"
    by (simp add: abs_triangle_ineq)
  also have "\<dots> = q * \<bar>c - c0\<bar> + \<bar>q - x\<bar> * c0" using q0 c0 by (simp add: abs_mult)
  finally have t4: "\<bar>q * c - x * c0\<bar> \<le> 2 * b + d" using t2 t3 by simp
  have "\<bar>r - x * c0\<bar> \<le> \<bar>r - q * c\<bar> + \<bar>q * c - x * c0\<bar>" by simp
  also have "\<dots> \<le> 3 * b + 3 * d + e" using r t1 t4 by simp
  also have "\<dots> \<le> 4 * b" using d8 e8 b0 by simp
  finally show ?thesis by (simp add: b_def a_def algebra_simps)
qed

lemma int_true_div_1000:
  "int_true_div (int n) 1000 =
     (if float_max_bound \<le> round_binary64 (of_nat n / 1000) then Inl OverflowError
      else Inr (round_binary64 (of_nat n / 1000)))"
proof -
  have "0 \<le> round_binary64 (of_nat n / 1000)" by (rule round_binary64_nonneg) simp
  then show ?thesis by (simp add: int_true_div_def Let_def)
qed

lemma price_bounds: "2 powi (- 12) \<le> price_per_1k_tokens" "price_per_1k_tokens \<le> 2 powi (- 11)"
  by (simp_all add: price_value power_int_minus)

lemma float_mul_price:
  assumes "0 \<le> q" "q < float_max_bound"
  shows "float_mul q price_per_1k_tokens = Finite (round_binary64 (q * price_per_1k_tokens))"
    and "0 \<le> round_binary64 (q * price_per_1k_tokens)"
proof -
  have p0: "0 \<le> price_per_1k_tokens" by (simp add: price_value)
  have qp0: "0 \<le> q * price_per_1k_tokens" using assms(1) p0 by simp
  show r0: "0 \<le> round_binary64 (q * price_per_1k_tokens)"
    using qp0 by (rule round_binary64_nonneg)
  have "q * price_per_1k_tokens \<le> 2 ^ 1024 * 2 powi (- 11)"
    using assms price_bounds(2) p0 by (intro mult_mono) (simp_all add: float_max_bound_def)
  also have "\<dots> = 2 powi 1013" by (simp add: power_int_minus)
  finally have "round_binary64 (q * price_per_1k_tokens) \<le> round_binary64 (2 powi 1013)"
    using qp0 by (intro round_binary64_mono)
  also have "\<dots> = 2 powi 1013" by (rule round_binary64_pow2) simp
  also have "\<dots> < float_max_bound" by (simp add: float_max_bound_def)
  finally have "\<not> float_max_bound \<le> round_binary64 (q * price_per_1k_tokens)" by simp
  moreover have "\<not> round_binary64 (q * price_per_1k_tokens) \<le> - float_max_bound"
    using r0 by (simp add: float_max_bound_def)
  ultimately show "float_mul q price_per_1k_tokens = Finite (round_binary64 (q * price_per_1k_tokens))"
    by (simp add: float_mul_def Let_def)
qed

lemma estimate_of_sum_eq:
  "estimate_of_sum n =
     (if float_max_bound \<le> round_binary64 (of_nat n / 1000) then Inl OverflowError
      else Inr (Finite (round_binary64 (round_binary64 (of_nat n / 1000) * price_per_1k_tokens))))"
proof -
  have "0 \<le> round_binary64 (of_nat n / 1000)" by (rule round_binary64_nonneg) simp
  then show ?thesis
    by (simp add: estimate_of_sum_def int_true_div_1000 float_mul_price(1))
qed

lemma estimate_mono:
  assumes "n \<le> m" "estimate_of_sum m = Inr cm"
  shows "\<exists>cn. estimate_of_sum n = Inr cn \<and> pyfloat_le cn cm"
proof -
  define qn :: rat where "qn = round_binary64 (of_nat n / 1000)"
  define qm :: rat where "qm = round_binary64 (of_nat m / 1000)"
  have "(of_nat n :: rat) / 1000 \<le> of_nat m / 1000" using assms(1) by (simp add: divide_right_mono)
  then have qnm: "qn \<le> qm" unfolding qn_def qm_def by (intro round_binary64_mono) simp_all
  have qn0: "0 \<le> qn" unfolding qn_def by (rule round_binary64_nonneg) simp
  have p0: "0 \<le> price_per_1k_tokens" by (simp add: price_value)
  from assms(2) have m: "\<not> float_max_bound \<le> qm" "cm = Finite (round_binary64 (qm * price_per_1k_tokens))"
    by (simp_all add: estimate_of_sum_eq qm_def split: if_splits)
  with qnm have n: "estimate_of_sum n = Inr (Finite (round_binary64 (qn * price_per_1k_tokens)))"
    by (simp add: estimate_of_sum_eq qn_def)
  have "qn * price_per_1k_tokens \<le> qm * price_per_1k_tokens"
    using qnm p0 by (rule mult_right_mono)
  then have "round_binary64 (qn * price_per_1k_tokens) \<le> round_binary64 (qm * price_per_1k_tokens)"
    using qn0 p0 by (intro round_binary64_mono) simp_all
  then show ?thesis using n m(2) by simp
qed

lemma price_rel_error: "\<bar>price_per_1k_tokens - 4 / 10000\<bar> \<le> (4 / 10000) * (1 / 2 ^ 53)"
  by (simp add: price_value)

lemma estimate_accuracy:
  assumes "estimate_of_sum n = Inr c"
  shows "\<exists>r. c = Finite r \<and> 0 \<le> r
           \<and> \<bar>r - spec_cost n (4 / 10000)\<bar> \<le> spec_cost n (4 / 10000) / 2 ^ 51"
proof -
  define x :: rat where "x = of_nat n / 1000"
  define q where "q = round_binary64 x"
  define r where "r = round_binary64 (q * price_per_1k_tokens)"
  define u :: rat where "u = 1 / 2 ^ 53"
  have c: "c = Finite r"
    using assms by (simp add: estimate_of_sum_eq r_def q_def x_def split: if_splits)
  have x0: "0 \<le> x" by (simp add: x_def)
  have q0: "0 \<le> q" unfolding q_def using x0 by (rule round_binary64_nonneg)
  have p0: "0 \<le> price_per_1k_tokens" by (simp add: price_value)
  have r0: "0 \<le> r" unfolding r_def using q0 p0 by (intro round_binary64_nonneg) simp
  have u: "0 \<le> u" "u \<le> 1/8" by (simp_all add: u_def)
  have "\<bar>r - x * (4 / 10000)\<bar> \<le> 4 * u * (x * (4 / 10000))"
  proof (cases "n = 0")
    case True
    then show ?thesis by (simp add: r_def q_def x_def round_binary64_def)
  next
    case False
    then have "(1::rat) \<le> of_nat n" by simp
    then have x1: "1 / 1000 \<le> x" by (simp add: x_def divide_right_mono)
    have "(2::rat) powi (- 1022) \<le> 2 powi (- 10)" by (rule power_int_increasing) simp_all
    also have "\<dots> \<le> 1 / 1000" by (simp add: power_int_minus)
    also have "\<dots> \<le> x" by (rule x1)
    finally have xn: "2 powi (- 1022) \<le> x" .
    have qe: "\<bar>q - x\<bar> \<le> x * u"
      using round_binary64_rel_error [OF xn] by (simp add: q_def u_def)
    have "x * (1 - u) \<le> q" using qe by (simp add: abs_le_iff algebra_simps)
    moreover have "(1 / 1000) * (1 / 2) \<le> x * (1 - u)"
      using x1 by (intro mult_mono) (simp_all add: u_def)
    ultimately have ql: "1 / 2000 \<le> q" by simp
    have "(2::rat) powi (- 1022) \<le> 2 powi (- 23)" by (rule power_int_increasing) simp_all
    also have "\<dots> = (1 / 2048) * 2 powi (- 12)" by (simp add: power_int_minus)
    also have "\<dots> \<le> q * price_per_1k_tokens"
      using ql price_bounds(1) by (intro mult_mono) simp_all
    finally have qpn: "2 powi (- 1022) \<le> q * price_per_1k_tokens" .
    have re: "\<bar>r - q * price_per_1k_tokens\<bar> \<le> q * price_per_1k_tokens * u"
      using round_binary64_rel_error [OF qpn] by (simp add: r_def u_def)
    have pe: "\<bar>price_per_1k_tokens - 4 / 10000\<bar> \<le> (4 / 10000) * u"
      using price_rel_error by (simp add: u_def)
    show ?thesis
      by (rule three_roundings [OF x0 _ u qe pe re]) simp
  qed
  also have "\<dots> = spec_cost n (4 / 10000) / 2 ^ 51"
    by (simp add: spec_cost_def x_def u_def)
  finally show ?thesis using c r0 by (simp add: spec_cost_def x_def)
qed

text \<open>
  Claim C1. For every tokenizer and every list of chunks, \<open>total_tokens\<close> is the sum, over the
  chunks, of the number of tokens that the tokenizer gives for the text of the chunk, and the
  cost estimate of the token-counter cell is the expression
  \<open>(total_tokens / 1000) * price_per_1k_tokens\<close> evaluated in Python's arithmetic: the true division of the int by
  1000 and the float product with the literal \<open>0.0004\<close>. When the division does not overflow
  the estimate is a finite non-negative float, within a relative error of \<open>2^-51\<close> of the exact
  value of the formula. For 150,000 tokens the estimate is the float
  \<open>8646911284551353 / 2^57 = 0.060000000000000005...\<close>, which the cell prints as \<open>$0.06\<close>; the
  exact value of the formula there is \<open>0.06\<close>. The estimate is monotonically non-decreasing in
  the total: if the estimate exists for a larger total, it exists for every smaller one and is
  not larger.
\<close>

theorem cost_estimate_formula:
  "total_tokens encode documents
     = sum_list (map (\<lambda>d. length (encode (page_content d))) documents)
   \<and> cost_estimate encode documents =
     (case int_true_div (int (sum_list (map (\<lambda>d. length (encode (page_content d))) documents)))
             1000 of
        Inl e \<Rightarrow> Inl e
      | Inr q \<Rightarrow> Inr (float_mul q price_per_1k_tokens))
   \<and> cost_estimate encode documents =
     (case int_true_div (int (total_tokens encode documents)) 1000 of
        Inl e \<Rightarrow> Inl e
      | Inr q \<Rightarrow> Inr (float_mul q price_per_1k_tokens))
   \<and> (cost_estimate encode documents = Inr c \<longrightarrow>
        (\<exists>r. c = Finite r \<and> 0 \<le> r
           \<and> \<bar>r - spec_cost (total_tokens encode documents) (4 / 10000)\<bar>
               \<le> spec_cost (total_tokens encode documents) (4 / 10000) / 2 ^ 51))
   \<and> (total_tokens encode documents = 150000 \<longrightarrow>
        cost_estimate encode documents = Inr (Finite (8646911284551353 / 2 ^ 57))
        \<and> cost_line (total_tokens encode documents) (Finite (8646911284551353 / 2 ^ 57))
            = ''150000 tokens, cost estimate: $0.06'')
   \<and> spec_cost 150000 (4 / 10000) = 6 / 100
   \<and> (total_tokens encode documents \<le> total_tokens encode documents'
        \<and> cost_estimate encode documents' = Inr c' \<longrightarrow>
        (\<exists>c. cost_estimate encode documents = Inr c \<and> pyfloat_le c c'))"
proof (intro conjI impI)
  show "total_tokens encode documents
     = sum_list (map (\<lambda>d. length (encode (page_content d))) documents)"
    by (simp add: total_tokens_def doc_tokens_def)
next
  show "cost_estimate encode documents =
     (case int_true_div (int (sum_list (map (\<lambda>d. length (encode (page_content d))) documents)))
             1000 of
        Inl e \<Rightarrow> Inl e
      | Inr q \<Rightarrow> Inr (float_mul q price_per_1k_tokens))"
    by (simp add: cost_estimate_def doc_tokens_def estimate_of_sum_def)
next
  show "cost_estimate encode documents =
     (case int_true_div (int (total_tokens encode documents)) 1000 of
        Inl e \<Rightarrow> Inl e
      | Inr q \<Rightarrow> Inr (float_mul q price_per_1k_tokens))"
    by (simp add: cost_estimate_def total_tokens_def estimate_of_sum_def)
next
  assume "cost_estimate encode documents = Inr c"
  then have "estimate_of_sum (total_tokens encode documents) = Inr c"
    by (simp add: cost_estimate_def total_tokens_def)
  then show "\<exists>r. c = Finite r \<and> 0 \<le> r
           \<and> \<bar>r - spec_cost (total_tokens encode documents) (4 / 10000)\<bar>
               \<le> spec_cost (total_tokens encode documents) (4 / 10000) / 2 ^ 51"
    by (rule estimate_accuracy)
next
  assume t: "total_tokens encode documents = 150000"
  then show "cost_estimate encode documents = Inr (Finite (8646911284551353 / 2 ^ 57))"
    using estimate_150000 by (simp add: cost_estimate_def total_tokens_def)
  show "cost_line (total_tokens encode documents) (Finite (8646911284551353 / 2 ^ 57))
            = ''150000 tokens, cost estimate: $0.06''"
    unfolding t by (rule cost_line_150000)
next
  show "spec_cost 150000 (4 / 10000) = 6 / 100"
    by (simp add: spec_cost_def)
next
  assume "total_tokens encode documents \<le> total_tokens encode documents'
        \<and> cost_estimate encode documents' = Inr c'"
  then have "total_tokens encode documents \<le> total_tokens encode documents'"
    and "estimate_of_sum (total_tokens encode documents') = Inr c'"
    by (simp_all add: cost_estimate_def total_tokens_def)
  then have "\<exists>c. estimate_of_sum (total_tokens encode documents) = Inr c \<and> pyfloat_le c c'"
    by (rule estimate_mono)
  then show "\<exists>c. cost_estimate encode documents = Inr c \<and> pyfloat_le c c'"
    by (simp add: cost_estimate_def total_tokens_def)
qed

lemma estimate_150006: "estimate_of_sum 150006 = Inr (Finite (8647257161002735 / 2 ^ 57))"
  by (simp add: estimate_of_sum_eq float_max_bound_def) code_simp

theorem cost_estimate_formula_witness:
  "doc_tokens sample_tokenizer sample_corpus = [100000, 50000]
   \<and> map (\<lambda>d. length (page_content d)) sample_corpus = [200000, 100000]
   \<and> total_tokens sample_tokenizer sample_corpus = 150000
   \<and> cost_estimate sample_tokenizer sample_corpus = Inr (Finite (8646911284551353 / 2 ^ 57))
   \<and> \<bar>8646911284551353 / 2 ^ 57 - spec_cost 150000 (4 / 10000)\<bar>
       \<le> spec_cost 150000 (4 / 10000) / 2 ^ 51
   \<and> total_tokens sample_tokenizer sample_corpus_more = 150006
   \<and> total_tokens sample_tokenizer sample_corpus \<le> total_tokens sample_tokenizer sample_corpus_more
   \<and> cost_estimate sample_tokenizer sample_corpus_more = Inr (Finite (8647257161002735 / 2 ^ 57))
   \<and> pyfloat_le (Finite (8646911284551353 / 2 ^ 57)) (Finite (8647257161002735 / 2 ^ 57))"
proof -
  have d: "doc_tokens sample_tokenizer sample_corpus = [100000, 50000]"
    by (simp add: doc_tokens_def sample_tokenizer_def sample_corpus_def)
  have l: "map (\<lambda>d. length (page_content d)) sample_corpus = [200000, 100000]"
    by (simp add: sample_corpus_def)
  have d': "doc_tokens sample_tokenizer sample_corpus_more = [6, 100000, 50000]"
    by (simp add: doc_tokens_def sample_tokenizer_def sample_corpus_def sample_corpus_more_def)
  have t: "total_tokens sample_tokenizer sample_corpus = 150000"
    by (simp add: total_tokens_def d)
  have t': "total_tokens sample_tokenizer sample_corpus_more = 150006"
    by (simp add: total_tokens_def d')
  have c': "cost_estimate sample_tokenizer sample_corpus_more
      = Inr (Finite (8647257161002735 / 2 ^ 57))"
    using d' estimate_150006 by (simp add: cost_estimate_def)
  show ?thesis
    using cost_estimate_formula [of sample_tokenizer sample_corpus
        "Finite (8646911284551353 / 2 ^ 57)" sample_corpus_more
        "Finite (8647257161002735 / 2 ^ 57)"] d l t t' c'
    by (auto simp add: spec_cost_def)
qed

section \<open>The run of the notebook\<close>

lemma format_prompt_filled:
  "format_prompt prompt [(''context'', c), (''question'', q)] = Inr (filled_prompt c q)"
  by (simp add: format_prompt_def prompt_def filled_prompt_def)

lemmas action_defs = returns_def raises_def and_then_def record_call_def

lemma similarity_search_with_score_eq:
  "similarity_search_with_score X db text k_arg w =
     (Inr (query X (collection db) text (case k_arg of None \<Rightarrow> default_k X | Some k \<Rightarrow> k)),
      w\<lparr>calls := calls w @ [QueryStore text (case k_arg of None \<Rightarrow> default_k X | Some k \<Rightarrow> k)]\<rparr>)"
  by (simp add: similarity_search_with_score_def action_defs Let_def)

lemma similarity_search_eq:
  "similarity_search X db text k_arg w =
     (Inr (map fst (query X (collection db) text (case k_arg of None \<Rightarrow> default_k X | Some k \<Rightarrow> k))),
      w\<lparr>calls := calls w @ [QueryStore text (case k_arg of None \<Rightarrow> default_k X | Some k \<Rightarrow> k)]\<rparr>)"
  by (simp add: similarity_search_def similarity_search_with_score_eq action_defs)

lemma qa_chain_eq:
  "qa_chain X db question w =
     (case environ w ''OPENAI_API_KEY'' of
        None \<Rightarrow> (Inl ConfigurationError, w\<lparr>calls := calls w @ [QueryStore question (default_k X)]\<rparr>)
      | Some key \<Rightarrow>
          (Inr (map fst (query X (collection db) question (default_k X)),
                chat_api X 0
                  (filled_prompt
                     (join [CHR 0x0A]
                        (map page_content (map fst (query X (collection db) question (default_k X)))))
                     question)),
           w\<lparr>calls := calls w @
                [QueryStore question (default_k X),
                 ChatCompletion 0
                   (filled_prompt
                      (join [CHR 0x0A]
                         (map page_content (map fst (query X (collection db) question (default_k X)))))
                      question)]\<rparr>))"
  by (simp add: qa_chain_def similarity_search_eq ChatOpenAI_def read_credential_def LLMChain_def
      format_prompt_filled action_defs split: option.splits)

lemma first_cells_eq:
  "and_then (task1_cell X) (\<lambda>raw_documents.
     and_then (task2_cell X raw_documents) (\<lambda>documents. f documents)) w =
   f (concat (map (\<lambda>d. map (\<lambda>t. \<lparr>page_content = t, metadata = metadata d\<rparr>)
                        (splitter_split_text X 1000 200 (page_content d)))
                  (loader_load X rtdocs_path)))
     (w\<lparr>calls := calls w @ [LoadDocuments rtdocs_path, SplitDocuments 1000 200]\<rparr>)"
  by (simp add: task1_cell_def task2_cell_def ReadTheDocsLoader_load_def split_documents_def action_defs)

lemma cost_estimate_error:
  "cost_estimate enc docs = Inl e \<Longrightarrow> e = OverflowError"
  by (simp add: cost_estimate_def estimate_of_sum_eq split: if_splits)

lemma notebook_eq:
  "notebook X w =
     (case cost_estimate (encoder_encode X) (chunked X) of
        Inl e \<Rightarrow> (Inl e, w\<lparr>calls := calls w @ first_calls\<rparr>)
      | Inr cost \<Rightarrow>
          (case environ w ''OPENAI_API_KEY'' of
             None \<Rightarrow> (Inl ConfigurationError, w\<lparr>calls := calls w @ first_calls\<rparr>)
           | Some key \<Rightarrow>
               (Inr \<lparr>cost_output = cost_line (total_tokens (encoder_encode X) (chunked X)) cost,
                     results = query X (stored w store_path) question5 (default_k X),
                     context_docs = map fst (query X (stored w store_path) question6 (default_k X)),
                     answer = chat_api X 0
                       (filled_prompt
                          (join [CHR 0x0A]
                             (map page_content
                                (map fst (query X (stored w store_path) question6 (default_k X)))))
                          question6)\<rparr>,
                w\<lparr>calls := calls w @ first_calls @
                     [OpenStore store_path,
                      QueryStore question5 (default_k X),
                      QueryStore question6 (default_k X),
                      ChatCompletion 0
                        (filled_prompt
                           (join [CHR 0x0A]
                              (map page_content
                                 (map fst (query X (stored w store_path) question6 (default_k X)))))
                           question6)]\<rparr>)))"
  unfolding notebook_def first_cells_eq
  by (simp add: task3_cell_def task4_cell_def alternative_cell_def step5_cell_def step6_cell_def
      OpenAIEmbeddings_def read_credential_def Chroma_def stored_def
      similarity_search_with_score_eq qa_chain_eq chunked_def first_calls_def
      question5_def question6_def action_defs
      split: sum.splits option.splits)

section \<open>The sample run\<close>

lemma sample_query5:
  "query sample_externals sample_store question5 4 =
     [(sample_document ''B'', 1), (sample_document ''E'', 3),
      (sample_document ''C'', 16), (sample_document ''A'', 22)]"
  by (simp add: query_def scored_def sample_externals_def sample_store_def question5_def
      sample_document_def)

lemma sample_query6:
  "query sample_externals sample_store question6 4 =
     [(sample_document ''C'', 2), (sample_document ''D'', 10),
      (sample_document ''E'', 15), (sample_document ''B'', 17)]"
  by (simp add: query_def scored_def sample_externals_def sample_store_def question6_def
      sample_document_def)

lemma sample_total: "total_tokens (encoder_encode sample_externals) (chunked sample_externals) = 34"
  by (simp add: total_tokens_def doc_tokens_def chunked_def sample_externals_def)

lemma estimate_34: "estimate_of_sum 34 = Inr (Finite (4014011510439199 / 295147905179352825856))"
  by (simp add: estimate_of_sum_eq float_max_bound_def) code_simp

lemma sample_cost:
  "cost_estimate (encoder_encode sample_externals) (chunked sample_externals)
     = Inr (Finite (4014011510439199 / 295147905179352825856))"
  using sample_total estimate_34 by (simp add: cost_estimate_def total_tokens_def)

lemma format_2f_sample: "format_2f (Finite (4014011510439199 / 295147905179352825856)) = ''0.00''"
  by code_simp

lemma sample_cost_line:
  "cost_line 34 (Finite (4014011510439199 / 295147905179352825856)) = ''34 tokens, cost estimate: $0.00''"
  unfolding cost_line_def format_2f_sample by (simp add: digit_char_def)

lemma sample_stored: "stored sample_world store_path = sample_store"
  by (simp add: stored_def sample_world_def store_path_def)

lemma sample_run:
  "notebook sample_externals sample_world = (Inr sample_outputs, sample_world\<lparr>calls := sample_calls\<rparr>)"
proof -
  have k: "default_k sample_externals = 4" by (simp add: sample_externals_def)
  have e: "environ sample_world ''OPENAI_API_KEY'' = Some ''sk-sample''"
    by (simp add: sample_world_def)
  have c: "calls sample_world = []" by (simp add: sample_world_def)
  have a: "chat_api sample_externals = (\<lambda>temperature text. ''Use a memory class.'')"
    by (simp add: sample_externals_def)
  show ?thesis
    unfolding notebook_eq sample_cost sample_total sample_cost_line sample_stored k
      sample_query5 sample_query6 e c a
    by (simp add: sample_cost_line sample_outputs_def sample_calls_def sample_prompt_def
        first_calls_def sample_document_def)
qed

lemma sample_run_without_key:
  "notebook sample_externals sample_world_without_key =
     (Inl ConfigurationError, sample_world_without_key\<lparr>calls := first_calls\<rparr>)"
proof -
  have e: "environ sample_world_without_key ''OPENAI_API_KEY'' = None"
    by (simp add: sample_world_without_key_def)
  have c: "calls sample_world_without_key = []"
    by (simp add: sample_world_without_key_def sample_world_def)
  show ?thesis
    unfolding notebook_eq sample_cost e c by simp
qed

section \<open>Retrieval\<close>

text \<open>
  Claim C2. For every query text and every \<open>k\<close>, the query of the vector store returns at most
  \<open>k\<close> results, in order of non-decreasing distance; \<open>similarity_search_with_score\<close> called
  with \<open>k\<close> returns exactly this sequence.
\<close>

theorem query_at_most_k_ascending:
  "length (query X entries text k) \<le> k
   \<and> sorted (map snd (query X entries text k))
   \<and> fst (similarity_search_with_score X db text (Some k) w) = Inr (query X (collection db) text k)"
proof (intro conjI)
  show "length (query X entries text k) \<le> k"
    by (simp add: query_def)
  have "sorted (map snd (sort_key snd (map (scored X (embed_text X text)) entries)))"
    by (rule sorted_sort_key)
  then have "sorted (take k (map snd (sort_key snd (map (scored X (embed_text X text)) entries))))"
    by (rule sorted_wrt_take)
  then show "sorted (map snd (query X entries text k))"
    by (simp add: query_def take_map)
  show "fst (similarity_search_with_score X db text (Some k) w) = Inr (query X (collection db) text k)"
    by (simp add: similarity_search_with_score_eq)
qed

section \<open>The chat stage, the credential and the persisted store\<close>

text \<open>
  Claim C6. For every question, with the credential present, the chat stage does these steps
  in this order and no other: it queries the store with the question (no \<open>k\<close>, hence the
  default), joins the texts of the retrieved chunks with a newline, fills the fixed template
  with that text as \<open>context\<close> and the question as \<open>question\<close>, sends the filled prompt to the
  chat-completion service with temperature 0, and returns the text of the response.
\<close>

theorem qa_chain_steps:
  assumes "environ w ''OPENAI_API_KEY'' = Some key"
  shows "format_prompt prompt [(''context'', context), (''question'', question)]
           = Inr (filled_prompt context question)
     \<and> qa_chain X db question w =
         (let docs = map fst (query X (collection db) question (default_k X));
              filled = filled_prompt (join [CHR 0x0A] (map page_content docs)) question
          in (Inr (docs, chat_api X 0 filled),
              w\<lparr>calls := calls w @
                   [QueryStore question (default_k X), ChatCompletion 0 filled]\<rparr>))"
  using assms by (simp add: format_prompt_filled qa_chain_eq Let_def)

theorem qa_chain_steps_witness:
  "environ sample_world ''OPENAI_API_KEY'' = Some ''sk-sample''
   \<and> qa_chain sample_externals \<lparr>persist_directory = store_path, collection = sample_store\<rparr>
        question6 sample_world
      = (Inr ([sample_document ''C'', sample_document ''D'', sample_document ''E'',
               sample_document ''B''], ''Use a memory class.''),
         sample_world\<lparr>calls := [QueryStore question6 4, ChatCompletion 0 sample_prompt]\<rparr>)"
proof -
  have e: "environ sample_world ''OPENAI_API_KEY'' = Some ''sk-sample''"
    by (simp add: sample_world_def)
  have k: "default_k sample_externals = 4" by (simp add: sample_externals_def)
  have a: "chat_api sample_externals = (\<lambda>temperature text. ''Use a memory class.'')"
    by (simp add: sample_externals_def)
  have c: "calls sample_world = []" by (simp add: sample_world_def)
  show ?thesis
    using qa_chain_steps [OF e, of "[]" question6 sample_externals
        "\<lparr>persist_directory = store_path, collection = sample_store\<rparr>"] e
    by (simp add: k a c sample_query6 sample_prompt_def sample_document_def Let_def)
qed

text \<open>
  Claim C8 says that without the credential the program fails before any pipeline stage runs.
  The notebook has no such check at its start: on the sample world without the variable
  \<open>OPENAI_API_KEY\<close> the run ends with the configuration error after the loading, chunking and
  token counting stages have run.
\<close>

theorem missing_credential_counterexample:
  "environ sample_world_without_key ''OPENAI_API_KEY'' = None
   \<and> calls sample_world_without_key = []
   \<and> fst (notebook sample_externals sample_world_without_key) = Inl ConfigurationError
   \<and> map stage_of (calls (snd (notebook sample_externals sample_world_without_key)))
       = [Loading, Chunking, TokenCounting]"
  by (simp add: sample_run_without_key first_calls_def)
     (simp add: sample_world_without_key_def sample_world_def)

text \<open>
  Claim C8, amended. If the credential is absent from the environment, the run fails with the
  configuration error where the first client of the service is constructed, in the Task 4
  cell: document loading, chunking and token counting have run, in this order, and nothing
  after them has: no store is opened, no embedding, retrieval or chat call is made, and the
  persisted stores are unchanged. (When the token total is too large for a float, the run ends
  one cell earlier, with the \<open>OverflowError\<close> of the division.)
\<close>

theorem missing_credential_fails_after_counting:
  assumes "environ w ''OPENAI_API_KEY'' = None"
  shows "calls (snd (notebook X w))
           = calls w @ [LoadDocuments rtdocs_path, SplitDocuments 1000 200, CountTokens]
     \<and> persisted (snd (notebook X w)) = persisted w
     \<and> (case cost_estimate (encoder_encode X) (chunked X) of
           Inl e \<Rightarrow> fst (notebook X w) = Inl OverflowError
         | Inr cost \<Rightarrow> fst (notebook X w) = Inl ConfigurationError)"
  using assms
  by (auto simp add: notebook_eq first_calls_def split: sum.splits dest: cost_estimate_error)

theorem missing_credential_fails_after_counting_witness:
  "environ sample_world_without_key ''OPENAI_API_KEY'' = None
   \<and> calls (snd (notebook sample_externals sample_world_without_key))
       = [LoadDocuments rtdocs_path, SplitDocuments 1000 200, CountTokens]
   \<and> fst (notebook sample_externals sample_world_without_key) = Inl ConfigurationError"
proof -
  have e: "environ sample_world_without_key ''OPENAI_API_KEY'' = None"
    by (simp add: sample_world_without_key_def)
  have c: "calls sample_world_without_key = []"
    by (simp add: sample_world_without_key_def sample_world_def)
  show ?thesis
    using missing_credential_fails_after_counting [OF e, of sample_externals] e
    by (simp add: c sample_cost)
qed

text \<open>
  The two calls that the Task 4 cell holds as comments would embed every chunk and write the
  store of their directory.
\<close>

lemma ingestion_writes_store:
  "and_then (Chroma_from_documents X docs e dir) Chroma_persist w = (r, w') \<Longrightarrow>
     persisted w' dir = Some (stored w dir
        @ map (\<lambda>d. \<lparr>vector = embed_text X (page_content d), entry_text = page_content d,
                     entry_metadata = metadata d\<rparr>) docs)
     \<and> calls w' = calls w @ [EmbedDocuments (map page_content docs), PersistStore dir]"
  by (auto simp add: and_then_def Chroma_from_documents_def Chroma_persist_def)

text \<open>
  Claim C10. The ingestion calls are comments, so no run executes them: whatever the libraries
  compute and however the run ends, the persisted stores after the run are those before it,
  and no call of the run embeds corpus chunks or writes a store. A run that completes opens
  the store of the directory \<open>chroma-data-langchain-docs\<close>, as its only call to the embedding
  and store stage, and answers both queries from the entries persisted there before the run.
\<close>

theorem notebook_store_unchanged:
  "persisted (snd (notebook X w)) = persisted w
   \<and> (\<exists>cs. calls (snd (notebook X w)) = calls w @ cs \<and> filter writes_store cs = [])
   \<and> (notebook X w = (Inr out, w') \<longrightarrow>
        (\<exists>cs. calls w' = calls w @ cs
           \<and> filter (\<lambda>c. stage_of c = EmbeddingStore) cs = [OpenStore store_path])
        \<and> results out = query X (stored w store_path) question5 (default_k X)
        \<and> context_docs out = map fst (query X (stored w store_path) question6 (default_k X)))"
proof (intro conjI impI)
  show "persisted (snd (notebook X w)) = persisted w"
    by (simp add: notebook_eq split: sum.splits option.splits)
  show "\<exists>cs. calls (snd (notebook X w)) = calls w @ cs \<and> filter writes_store cs = []"
  proof (cases "fst (notebook X w)")
    case (Inl e)
    then have "calls (snd (notebook X w)) = calls w @ first_calls"
      by (auto simp add: notebook_eq split: sum.splits option.splits)
    moreover have "filter writes_store first_calls = []"
      by (simp add: first_calls_def)
    ultimately show ?thesis by blast
  next
    case (Inr out)
    then obtain p where "calls (snd (notebook X w)) = calls w @ first_calls @
        [OpenStore store_path, QueryStore question5 (default_k X),
         QueryStore question6 (default_k X), ChatCompletion 0 p]"
      by (auto simp add: notebook_eq split: sum.splits option.splits)
    moreover have "filter writes_store (first_calls @
        [OpenStore store_path, QueryStore question5 (default_k X),
         QueryStore question6 (default_k X), ChatCompletion 0 p]) = []"
      by (simp add: first_calls_def)
    ultimately show ?thesis by blast
  qed
next
  assume run: "notebook X w = (Inr out, w')"
  then show "\<exists>cs. calls w' = calls w @ cs
           \<and> filter (\<lambda>c. stage_of c = EmbeddingStore) cs = [OpenStore store_path]"
    by (auto simp add: notebook_eq first_calls_def split: sum.splits option.splits)
  from run show "results out = query X (stored w store_path) question5 (default_k X)"
    by (auto simp add: notebook_eq split: sum.splits option.splits)
  from run show "context_docs out = map fst (query X (stored w store_path) question6 (default_k X))"
    by (auto simp add: notebook_eq split: sum.splits option.splits)
qed

theorem notebook_store_unchanged_witness:
  "notebook sample_externals sample_world = (Inr sample_outputs, sample_world\<lparr>calls := sample_calls\<rparr>)
   \<and> persisted (sample_world\<lparr>calls := sample_calls\<rparr>) = persisted sample_world
   \<and> results sample_outputs = query sample_externals sample_store question5 4"
proof -
  have k: "default_k sample_externals = 4" by (simp add: sample_externals_def)
  show ?thesis
    using notebook_store_unchanged [of sample_externals sample_world sample_outputs
        "sample_world\<lparr>calls := sample_calls\<rparr>"] sample_run
    by (simp add: k sample_stored)
qed

end
